theory Spec2Isabelle
  imports Main "HOL-Library.Sublist"
begin

section \<open>Python strings\<close>

text \<open>
  A Python \<open>str\<close> is a \<^typ>\<open>string\<close>, each character a code point below 256. On
  these, \<open>str.lower\<close> maps \<open>A\<close>..\<open>Z\<close> to \<open>a\<close>..\<open>z\<close> and the capital letters
  \<open>0xC0\<close>..\<open>0xDE\<close> (without the multiplication sign \<open>0xD7\<close>) to the small letters
  \<open>0xE0\<close>..\<open>0xFE\<close>, and leaves every other character alone; \<open>str.strip\<close> removes
  whitespace from both ends, which is tab, line feed, vertical tab, form feed, carriage
  return, the separators \<open>0x1C\<close>..\<open>0x1F\<close>, the space, the next-line character \<open>0x85\<close>
  and the no-break space \<open>0xA0\<close>; and \<open>k in s\<close> is the test for a contiguous substring.
\<close>

definition lower_char :: "char \<Rightarrow> char" where
  "lower_char c =
     (case map_of
        (zip (''ABCDEFGHIJKLMNOPQRSTUVWXYZ'' @
              [CHR 0xC0, CHR 0xC1, CHR 0xC2, CHR 0xC3, CHR 0xC4, CHR 0xC5, CHR 0xC6, CHR 0xC7,
               CHR 0xC8, CHR 0xC9, CHR 0xCA, CHR 0xCB, CHR 0xCC, CHR 0xCD, CHR 0xCE, CHR 0xCF,
               CHR 0xD0, CHR 0xD1, CHR 0xD2, CHR 0xD3, CHR 0xD4, CHR 0xD5, CHR 0xD6,
               CHR 0xD8, CHR 0xD9, CHR 0xDA, CHR 0xDB, CHR 0xDC, CHR 0xDD, CHR 0xDE])
             (''abcdefghijklmnopqrstuvwxyz'' @
              [CHR 0xE0, CHR 0xE1, CHR 0xE2, CHR 0xE3, CHR 0xE4, CHR 0xE5, CHR 0xE6, CHR 0xE7,
               CHR 0xE8, CHR 0xE9, CHR 0xEA, CHR 0xEB, CHR 0xEC, CHR 0xED, CHR 0xEE, CHR 0xEF,
               CHR 0xF0, CHR 0xF1, CHR 0xF2, CHR 0xF3, CHR 0xF4, CHR 0xF5, CHR 0xF6,
               CHR 0xF8, CHR 0xF9, CHR 0xFA, CHR 0xFB, CHR 0xFC, CHR 0xFD, CHR 0xFE])) c of
        Some d \<Rightarrow> d
      | None \<Rightarrow> c)"

definition lower :: "string \<Rightarrow> string" where
  "lower s = map lower_char s"

definition is_space :: "char \<Rightarrow> bool" where
  "is_space c =
     (c \<in> set [CHR 0x09, CHR 0x0A, CHR 0x0B, CHR 0x0C, CHR 0x0D,
                CHR 0x1C, CHR 0x1D, CHR 0x1E, CHR 0x1F, CHR '' '', CHR 0x85, CHR 0xA0])"

definition strip :: "string \<Rightarrow> string" where
  "strip s = rev (dropWhile is_space (rev (dropWhile is_space s)))"

definition contains :: "string \<Rightarrow> string \<Rightarrow> bool" where
  \<comment> \<open>\<open>contains s k\<close> is Python's \<open>k in s\<close>.\<close>
  "contains s k = sublist k s"

section \<open>utils.py\<close>

definition RISK_TO_HEX :: "(string \<times> string) list" where
  "RISK_TO_HEX =
     [(''lower'', ''#3d3d3d''),
      (''low'', ''#7db86a''),
      (''medium'', ''#f2e804''),
      (''high'', ''#ffaa00''),
      (''emergency'', ''#b10202'')]"

definition LEVEL_OPTIONS :: "string list" where
  "LEVEL_OPTIONS = [''Lower'', ''Low'', ''Medium'', ''High'', ''Emergency'']"

definition DEFAULT_HEX :: string where
  \<comment> \<open>The default of the parameter \<open>default\<close> of \<open>risk_to_color_hex\<close>.\<close>
  "DEFAULT_HEX = ''#3388ff''"

definition dict_get :: "(string \<times> 'v) list \<Rightarrow> string \<Rightarrow> 'v \<Rightarrow> 'v" where
  \<comment> \<open>\<open>d.get(k, default)\<close> on a dict literal.\<close>
  "dict_get d k dflt = (case map_of d k of Some v \<Rightarrow> v | None \<Rightarrow> dflt)"

definition risk_to_color_hex :: "string \<Rightarrow> string \<Rightarrow> string" where
  \<comment> \<open>\<open>if not risk_value: return default\<close>, then the lookup of the trimmed, lowered label.\<close>
  "risk_to_color_hex risk_value dflt =
     (if risk_value = [] then dflt
      else dict_get RISK_TO_HEX (lower (strip risk_value)) dflt)"

section \<open>The dataset\<close>

text \<open>
  A pandas \<open>DataFrame\<close> is its list of column labels and its rows, each row the list of
  its cells in column order. The sheet reader hands over strings and numbers, and a
  missing value is \<open>None\<close> or the float \<open>NaN\<close>. The program treats the two alike,
  so both are the cell \<open>Missing\<close>; \<open>Num x\<close> is an integer or a float other than \<open>NaN\<close>.
  The scalar \<open>pd.NA\<close> is not among the cells: the reader does not produce it.
  Column labels are distinct, as the header row of the sheet must be for the reader.

  Python's floats stay abstract: the type \<open>'f\<close> with the operations the program uses,
  \<open>float(s)\<close> (\<open>None\<close> where it raises \<open>ValueError\<close>), \<open>str(x)\<close>, the test for \<open>NaN\<close> and
  the mean of a list of floats as \<open>pd.Series(xs).mean()\<close> computes it. Every definition
  below takes them as the parameter \<open>F\<close>.
\<close>

datatype 'f cell = Str string | Num 'f | Missing

record 'f dataframe =
  columns :: "string list"
  rows :: "'f cell list list"

record 'f pyfloat =
  float_of :: "string \<Rightarrow> 'f option"
  str_of :: "'f \<Rightarrow> string"
  isnan :: "'f \<Rightarrow> bool"
  mean :: "'f list \<Rightarrow> 'f"

definition df_empty :: "'f dataframe \<Rightarrow> bool" where
  \<comment> \<open>\<open>df.empty\<close>: true when an axis has length 0, the rows or the columns.\<close>
  "df_empty df = (columns df = [] \<or> rows df = [])"

definition row_get :: "string list \<Rightarrow> 'f cell list \<Rightarrow> string \<Rightarrow> 'f cell \<Rightarrow> 'f cell" where
  \<comment> \<open>\<open>row.get(c, default)\<close> on a row of a frame with the columns \<open>cols\<close>.\<close>
  "row_get cols row c dflt = (case map_of (zip cols row) c of Some v \<Rightarrow> v | None \<Rightarrow> dflt)"

definition cell_str :: "'f pyfloat \<Rightarrow> 'f cell \<Rightarrow> string" where
  \<comment> \<open>\<open>str(val)\<close>; a missing value prints as \<open>nan\<close> (or \<open>None\<close>, which every caller
      treats as it treats \<open>nan\<close>).\<close>
  "cell_str F v = (case v of Str s \<Rightarrow> s | Num x \<Rightarrow> str_of F x | Missing \<Rightarrow> ''nan'')"

definition notna :: "'f cell \<Rightarrow> bool" where
  "notna v = (v \<noteq> Missing)"

section \<open>Regular expressions of the program\<close>

definition is_digit :: "char \<Rightarrow> bool" where
  "is_digit c = (c \<in> set ''0123456789'')"

definition is_hex_digit :: "char \<Rightarrow> bool" where
  "is_hex_digit c = (c \<in> set ''0123456789abcdefABCDEF'')"

definition match_float :: "string \<Rightarrow> (string \<times> string) option" where
  \<comment> \<open>A match of \<open>FLOAT_RE = [+-]?[0-9]+(?:\.[0-9]+)?\<close> at the start of the string:
      the matched text and the rest. The sign, the digits and the fraction are greedy.\<close>
  "match_float s =
     (let (sign, s1) =
            (case s of
               [] \<Rightarrow> ([], [])
             | c # cs \<Rightarrow> if c = CHR ''+'' \<or> c = CHR ''-'' then ([c], cs) else ([], s));
          ds = takeWhile is_digit s1;
          r1 = dropWhile is_digit s1
      in if ds = [] then None
         else (case r1 of
                 [] \<Rightarrow> Some (sign @ ds, r1)
               | d # r2 \<Rightarrow>
                   if d = CHR ''.'' \<and> takeWhile is_digit r2 \<noteq> []
                   then Some (sign @ ds @ [d] @ takeWhile is_digit r2, dropWhile is_digit r2)
                   else Some (sign @ ds, r1)))"

lemma match_float_tail:
  assumes "ds \<noteq> []" and "s1 = ds @ r1"
  shows "\<exists>m rest.
     (case r1 of
        [] \<Rightarrow> Some (sg @ ds, r1)
      | d # r2 \<Rightarrow>
          if d = CHR ''.'' \<and> takeWhile is_digit r2 \<noteq> []
          then Some (sg @ ds @ [d] @ takeWhile is_digit r2, dropWhile is_digit r2)
          else Some (sg @ ds, r1)) = Some (m, rest)
     \<and> sg @ s1 = m @ rest \<and> m \<noteq> []"
  using assms by (cases r1) (simp_all del: takeWhile_eq_Nil_iff)

lemma match_float_split:
  assumes "match_float s = Some (m, rest)"
  shows "s = m @ rest \<and> m \<noteq> []"
proof -
  obtain sg s1 where sg:
    "(case s of [] \<Rightarrow> ([], [])
      | c # cs \<Rightarrow> if c = CHR ''+'' \<or> c = CHR ''-'' then ([c], cs) else ([], s)) = (sg, s1)"
    by fastforce
  then have s: "s = sg @ s1"
    by (auto split: list.splits if_splits)
  from assms sg have ne: "takeWhile is_digit s1 \<noteq> []"
    by (auto simp: match_float_def Let_def split: if_splits simp del: takeWhile_eq_Nil_iff)
  from assms sg ne have mf:
    "(case dropWhile is_digit s1 of
        [] \<Rightarrow> Some (sg @ takeWhile is_digit s1, dropWhile is_digit s1)
      | d # r2 \<Rightarrow>
          if d = CHR ''.'' \<and> takeWhile is_digit r2 \<noteq> []
          then Some (sg @ takeWhile is_digit s1 @ [d] @ takeWhile is_digit r2,
                     dropWhile is_digit r2)
          else Some (sg @ takeWhile is_digit s1, dropWhile is_digit s1)) = Some (m, rest)"
    by (simp add: match_float_def Let_def del: takeWhile_eq_Nil_iff)
  have "s1 = takeWhile is_digit s1 @ dropWhile is_digit s1"
    by simp
  from match_float_tail [OF ne this, of sg] obtain m' rest' where
    "(case dropWhile is_digit s1 of
        [] \<Rightarrow> Some (sg @ takeWhile is_digit s1, dropWhile is_digit s1)
      | d # r2 \<Rightarrow>
          if d = CHR ''.'' \<and> takeWhile is_digit r2 \<noteq> []
          then Some (sg @ takeWhile is_digit s1 @ [d] @ takeWhile is_digit r2,
                     dropWhile is_digit r2)
          else Some (sg @ takeWhile is_digit s1, dropWhile is_digit s1)) = Some (m', rest')"
    and r: "sg @ s1 = m' @ rest'" "m' \<noteq> []"
    by blast
  with mf have "m' = m" "rest' = rest"
    by simp_all
  with r s show ?thesis
    by simp
qed

lemma match_float_shorter:
  "match_float s = Some (m, rest) \<Longrightarrow> length rest < length s"
  by (drule match_float_split) auto

function findall_float :: "string \<Rightarrow> string list" where
  "findall_float [] = []"
| "findall_float (c # cs) =
     (case match_float (c # cs) of
        None \<Rightarrow> findall_float cs
      | Some (m, rest) \<Rightarrow> m # findall_float rest)"
  by pat_completeness auto
termination
  by (relation "measure length") (auto dest: match_float_shorter)

section \<open>map_builder.py\<close>

definition find_level_col :: "string list \<Rightarrow> string option" where
  "find_level_col cols =
     find (\<lambda>c. let lc = lower c
               in contains lc ''level'' \<and> (contains lc ''risiko'' \<or> contains lc ''resiko'')) cols"

definition find_indikator_surat_col :: "string list \<Rightarrow> string option" where
  "find_indikator_surat_col cols =
     find (\<lambda>c. let lc = lower c in contains lc ''indikator'' \<and> contains lc ''surat'') cols"

definition find_indikator_bungkus_col :: "string list \<Rightarrow> string option" where
  "find_indikator_bungkus_col cols =
     find (\<lambda>c. let lc = lower c in contains lc ''indikator'' \<and> contains lc ''bungkus'') cols"

definition get_color_from_row :: "'f pyfloat \<Rightarrow> 'f cell list \<Rightarrow> string list \<Rightarrow> string option" where
  "get_color_from_row F row df_cols =
     (case find (\<lambda>c. lower c \<in> set [''color'', ''warna'']) df_cols of
        None \<Rightarrow> None
      | Some color_col \<Rightarrow>
          (let val = row_get df_cols row color_col Missing
           in if notna val \<and> strip (cell_str F val) \<noteq> []
              then Some (strip (cell_str F val))
              else None))"

definition hex_fullmatch :: "string \<Rightarrow> bool" where
  \<comment> \<open>\<open>re.fullmatch(r"^#([A-Fa-f0-9]{6}|[A-Fa-f0-9]{3})$", s)\<close>\<close>
  "hex_fullmatch s =
     (case s of
        [] \<Rightarrow> False
      | c # ds \<Rightarrow> c = CHR ''#'' \<and> (length ds = 6 \<or> length ds = 3) \<and> list_all is_hex_digit ds)"

definition valid_hex_str :: "string \<Rightarrow> bool" where
  \<comment> \<open>\<open>_valid_hex\<close> on a string: not empty, and matched after \<open>strip\<close>.\<close>
  "valid_hex_str s = (s \<noteq> [] \<and> hex_fullmatch (strip s))"

definition valid_hex :: "'f cell \<Rightarrow> bool" where
  \<comment> \<open>\<open>_valid_hex\<close>: false on \<open>None\<close> and on whatever is not a string.\<close>
  "valid_hex h =
     (case h of
        Str s \<Rightarrow> valid_hex_str s
      | Num x \<Rightarrow> False
      | Missing \<Rightarrow> False)"

definition parse_coord_from_field :: "'f pyfloat \<Rightarrow> 'f cell \<Rightarrow> 'f option \<times> 'f option" where
  "parse_coord_from_field F val =
     (case val of
        Missing \<Rightarrow> (None, None)
      | _ \<Rightarrow>
          (let found = findall_float (cell_str F val)
           in if 2 \<le> length found
              then (case (float_of F (found ! 0), float_of F (found ! 1)) of
                      (Some lat, Some lon) \<Rightarrow> (Some lat, Some lon)
                    | _ \<Rightarrow> (None, None))
              else (None, None)))"

definition is_blank :: "'f cell \<Rightarrow> bool" where
  "is_blank val =
     (case val of
        Missing \<Rightarrow> True
      | Str s \<Rightarrow> strip s = []
      | Num x \<Rightarrow> False)"

definition cell_to_float :: "'f pyfloat \<Rightarrow> 'f cell \<Rightarrow> 'f option" where
  \<comment> \<open>The guarded conversion \<open>float(str(v).strip())\<close> of \<open>_get_lat_lon_from_row\<close>:
      \<open>None\<close> for a blank value and where \<open>float\<close> raises. On a number the conversion
      of its own \<open>str\<close> gives the number back.\<close>
  "cell_to_float F v =
     (if is_blank v then None
      else (case v of
              Str s \<Rightarrow> float_of F (strip s)
            | Num x \<Rightarrow> Some x
            | Missing \<Rightarrow> None))"

definition coord_col_of :: "string list \<Rightarrow> string option" where
  \<comment> \<open>The loop of \<open>_get_lat_lon_from_row\<close> that picks the first coordinate-like column.\<close>
  "coord_col_of df_cols =
     find (\<lambda>c. contains (lower c) ''koordinat'' \<or> contains (lower c) ''coord'') df_cols"

definition get_lat_lon_from_row ::
  "'f pyfloat \<Rightarrow> 'f cell list \<Rightarrow> string list \<Rightarrow> 'f option \<times> 'f option" where
  "get_lat_lon_from_row F row df_cols =
     (let lat_keys = filter (\<lambda>c. lower c \<in> set [''latitude'', ''lat'', ''lintang'']) df_cols;
          lon_keys = filter (\<lambda>c. lower c \<in> set [''longitude'', ''lon'', ''lng'', ''bujur'']) df_cols;
          lat = (case lat_keys of [] \<Rightarrow> Missing | k # ks \<Rightarrow> row_get df_cols row k Missing);
          lon = (case lon_keys of [] \<Rightarrow> Missing | k # ks \<Rightarrow> row_get df_cols row k Missing);
          parsed =
            (if is_blank lat \<or> is_blank lon
             then (case coord_col_of df_cols of
                     None \<Rightarrow> (None, None)
                   | Some coord_col \<Rightarrow>
                       parse_coord_from_field F (row_get df_cols row coord_col (Str [])))
             else (None, None))
      in (case parsed of
            (Some parsed_lat, Some parsed_lon) \<Rightarrow> (Some parsed_lat, Some parsed_lon)
          | _ \<Rightarrow>
              (let lat_f = cell_to_float F lat;
                   lon_f = cell_to_float F lon
               in if lat_f \<noteq> None \<and> lon_f \<noteq> None then (lat_f, lon_f)
                  else if lat_f \<noteq> None \<and> lon_f = None then (lat_f, None)
                  else (None, None))))"

datatype marker_shape = Circle | Square

definition get_marker_type_from_indikator_surat :: "'f cell \<Rightarrow> marker_shape" where
  \<comment> \<open>A number prints without the letters of the keywords: it gives the default.\<close>
  "get_marker_type_from_indikator_surat indikator_value =
     (case indikator_value of
        Str s \<Rightarrow>
          if s = [] then Circle
          else (let value_str = lower (strip s)
                in if contains value_str ''surat himbauan'' then Square
                   else if contains value_str ''selesai surat ke muspika'' then Circle
                   else Circle)
      | _ \<Rightarrow> Circle)"

definition get_border_color_from_indikator_bungkus :: "'f cell \<Rightarrow> string" where
  "get_border_color_from_indikator_bungkus indikator_value =
     (case indikator_value of
        Str s \<Rightarrow>
          if s = [] then ''#000000''
          else (let value_str = lower (strip s)
                in if contains value_str ''pengiriman usulan'' then ''#ff6b35''
                   else if contains value_str ''realisasi pembungkusan'' then ''#28a745''
                   else if contains value_str ''belum ada tindak lanjut'' then ''#dc3545''
                   else ''#000000'')
      | _ \<Rightarrow> ''#000000'')"

definition risk_of_cell :: "'f cell \<Rightarrow> string" where
  \<comment> \<open>\<open>risk_to_color_hex(row.get(level_col, ""))\<close> with the default \<open>#3388ff\<close>. A missing
      value and a number are no key of the table: they give the default.\<close>
  "risk_of_cell v =
     (case v of
        Str s \<Rightarrow> risk_to_color_hex s DEFAULT_HEX
      | _ \<Rightarrow> DEFAULT_HEX)"

definition fill_color_of :: "'f pyfloat \<Rightarrow> string \<Rightarrow> string list \<Rightarrow> 'f cell list \<Rightarrow> string" where
  \<comment> \<open>The four assignments to \<open>fill_color\<close> in the marker loop of \<open>make_map\<close>. The
      variable holds \<open>None\<close>, a string or a cell of the row; after the last assignment it
      is a string that \<open>_valid_hex\<close> accepts.\<close>
  "fill_color_of F color_col df_cols row =
     (let level_col = find_level_col df_cols;
          fill_color1 = (case get_color_from_row F row df_cols of
                           None \<Rightarrow> Missing
                         | Some s \<Rightarrow> Str s);
          fill_color2 = (if \<not> valid_hex fill_color1
                         then (if color_col \<in> set df_cols
                               then row_get df_cols row color_col Missing
                               else Missing)
                         else fill_color1);
          fill_color3 = (case level_col of
                           None \<Rightarrow> fill_color2
                         | Some lc \<Rightarrow>
                             if \<not> valid_hex fill_color2
                             then Str (risk_of_cell (row_get df_cols row lc (Str [])))
                             else fill_color2)
      in (case fill_color3 of
            Str s \<Rightarrow> if \<not> valid_hex fill_color3 then ''#3388ff'' else s
          | _ \<Rightarrow> ''#3388ff''))"

record 'f marker =
  location :: "'f \<times> 'f"
  marker_type :: marker_shape
  border_color :: string
  fill_color :: string

record 'f folium_map =
  center :: "('f \<times> 'f) option"
  markers :: "'f marker list"
  legend :: bool

datatype ui = Info string | Warning string | Error string | Success string

datatype py_error = ValueError

definition location_ok :: "'f pyfloat \<Rightarrow> 'f \<times> 'f \<Rightarrow> bool" where
  \<comment> \<open>The check of a location by folium, in \<open>folium.Map\<close> and in the constructor of every
      marker: a location with a \<open>NaN\<close> is refused with \<open>ValueError\<close>.\<close>
  "location_ok F loc = (\<not> isnan F (fst loc) \<and> \<not> isnan F (snd loc))"

definition marker_of_row ::
  "'f pyfloat \<Rightarrow> string \<Rightarrow> string list \<Rightarrow> 'f cell list \<Rightarrow> py_error + 'f marker list" where
  \<comment> \<open>One pass of the marker loop: nothing for a row without a pair (\<open>continue\<close>), one
      marker for a pair that folium accepts, and the \<open>ValueError\<close> of the marker
      constructor otherwise.\<close>
  "marker_of_row F color_col df_cols row =
     (case get_lat_lon_from_row F row df_cols of
        (Some lat, Some lon) \<Rightarrow>
          if location_ok F (lat, lon)
          then Inr [\<lparr>location = (lat, lon),
                    marker_type =
                      (case find_indikator_surat_col df_cols of
                         None \<Rightarrow> Circle
                       | Some c \<Rightarrow>
                           get_marker_type_from_indikator_surat (row_get df_cols row c Missing)),
                    border_color =
                      (case find_indikator_bungkus_col df_cols of
                         None \<Rightarrow> ''#000000''
                       | Some c \<Rightarrow>
                           get_border_color_from_indikator_bungkus (row_get df_cols row c Missing)),
                    fill_color = fill_color_of F color_col df_cols row\<rparr>]
          else Inl ValueError
      | _ \<Rightarrow> Inr [])"

fun marker_loop ::
  "'f pyfloat \<Rightarrow> string \<Rightarrow> string list \<Rightarrow> 'f cell list list \<Rightarrow> py_error + 'f marker list" where
  \<comment> \<open>The marker loop over the rows, in order; it ends at the first exception.\<close>
  "marker_loop F color_col df_cols [] = Inr []"
| "marker_loop F color_col df_cols (row # rws) =
     (case marker_of_row F color_col df_cols row of
        Inl e \<Rightarrow> Inl e
      | Inr ms \<Rightarrow>
          (case marker_loop F color_col df_cols rws of
             Inl e \<Rightarrow> Inl e
           | Inr ms' \<Rightarrow> Inr (ms @ ms')))"

definition valid_points :: "'f pyfloat \<Rightarrow> string list \<Rightarrow> 'f cell list list \<Rightarrow> ('f \<times> 'f) list" where
  \<comment> \<open>The first loop of \<open>make_map\<close>: the pairs appended to \<open>lats\<close> and \<open>lons\<close>.\<close>
  "valid_points F df_cols rws =
     concat (map (\<lambda>row. case get_lat_lon_from_row F row df_cols of
                           (Some lat, Some lon) \<Rightarrow> [(lat, lon)]
                         | _ \<Rightarrow> []) rws)"

definition make_map ::
  "'f pyfloat \<Rightarrow> 'f dataframe option \<Rightarrow> string \<Rightarrow> bool
     \<Rightarrow> py_error + ('f folium_map option \<times> ui list)" where
  \<comment> \<open>\<open>make_map(df, color_col, ..., show_legend)\<close>: the exception it raises, or the map
      (or \<open>None\<close>) it returns and what the call shows on the page. The centre of the map
      is the pair of means of the valid latitudes and longitudes, and \<open>None\<close> stands for
      the centre (0, 0) of a dataset without a valid point. The map holds the markers in
      row order and whether the legend overlay was asked for; the popup of a marker is
      not modelled.\<close>
  "make_map F df color_col show_legend =
     (case df of
        None \<Rightarrow> Inr (None, [Info ''Tidak ada data untuk dipetakan.''])
      | Some d \<Rightarrow>
          if df_empty d then Inr (None, [Info ''Tidak ada data untuk dipetakan.''])
          else
            (let pts = valid_points F (columns d) (rows d);
                 mean_loc = (if pts \<noteq> []
                             then Some (mean F (map fst pts), mean F (map snd pts))
                             else None)
             in if (case mean_loc of None \<Rightarrow> False | Some loc \<Rightarrow> \<not> location_ok F loc)
                then Inl ValueError
                else (case marker_loop F color_col (columns d) (rows d) of
                        Inl e \<Rightarrow> Inl e
                      | Inr ms \<Rightarrow>
                          Inr (Some \<lparr>center = mean_loc, markers = ms, legend = show_legend\<rparr>, []))))"





section \<open>forms.py: the column heuristics\<close>

definition is_number_column :: "string \<Rightarrow> bool" where
  "is_number_column column_name =
     (let number_keywords = [''no'', ''nomor'', ''nomer'', ''number'', ''num'', ''urut''];
          col_lower = lower column_name;
          excluded_keywords =
            [''nomer surat pemohonan pembungkusan'', ''nomer surat pfk'', ''idpel'', ''no meter'']
      in if list_ex (contains col_lower) excluded_keywords then False
         else list_ex (contains col_lower) number_keywords)"

definition is_date_column :: "string \<Rightarrow> bool" where
  "is_date_column column_name =
     (let date_keywords = [''tanggal'', ''tgl'', ''date'', ''waktu'', ''time'', ''bulan'', ''tahun''];
          col_lower = lower column_name
      in if list_ex (contains col_lower) [''petugas'', ''nama'', ''penemu''] then False
         else list_ex (contains col_lower) date_keywords)"

definition is_indicator_column :: "string \<Rightarrow> bool" where
  "is_indicator_column column_name =
     (let col_lower = lower column_name;
          indicator_keywords =
            [''indikator surat'', ''indikator bungkus'', ''indikator pfk'',
             ''perubahan konstruksi mandiri'']
      in list_ex (contains col_lower) indicator_keywords)"

definition SKIP_KEYS :: "string list" where
  "SKIP_KEYS = [''latitude'', ''longitude'', ''color'']"

datatype role = Skipped | Documentation | Feeder | Indicator | DateInput | NumberInput | PlainText

definition is_skipped :: "string option \<Rightarrow> string \<Rightarrow> bool" where
  \<comment> \<open>The first test of the per-column loop of \<open>render_input_form\<close>.\<close>
  "is_skipped level_col c =
     (let cl = lower c
      in Some c = level_col \<or> list_ex (contains cl) SKIP_KEYS
         \<or> contains cl ''koordinat'' \<or> contains cl ''coord'')"

definition column_role :: "string option \<Rightarrow> string \<Rightarrow> role" where
  \<comment> \<open>The chain of tests of the per-column loop of \<open>render_input_form\<close>, each ending in
      \<open>continue\<close>: the kind of input rendered for the column \<open>c\<close>.\<close>
  "column_role level_col c =
     (let cl = lower c
      in if is_skipped level_col c then Skipped
         else if contains cl ''dokumentasi'' then Documentation
         else if contains cl ''penyulang'' then Feeder
         else if is_indicator_column c then Indicator
         else if is_date_column c then DateInput
         else if is_number_column c then NumberInput
         else PlainText)"

text \<open>
  The priority list of the specification, for comparison with \<open>column_role\<close>: the roles in
  the order skip-list, documentation, feeder, indicator, date, number, plain text, each with
  the test that says a column name matches it. Plain text matches every name.
\<close>

definition role_priority :: "role list" where
  "role_priority = [Skipped, Documentation, Feeder, Indicator, DateInput, NumberInput, PlainText]"

definition role_matches :: "string option \<Rightarrow> string \<Rightarrow> role \<Rightarrow> bool" where
  "role_matches level_col c r =
     (case r of
        Skipped \<Rightarrow> is_skipped level_col c
      | Documentation \<Rightarrow> contains (lower c) ''dokumentasi''
      | Feeder \<Rightarrow> contains (lower c) ''penyulang''
      | Indicator \<Rightarrow> is_indicator_column c
      | DateInput \<Rightarrow> is_date_column c
      | NumberInput \<Rightarrow> is_number_column c
      | PlainText \<Rightarrow> True)"

definition classify_spec :: "string option \<Rightarrow> string \<Rightarrow> role option" where
  "classify_spec level_col c = find (role_matches level_col c) role_priority"

section \<open>forms.py: the last number of a column\<close>

function findall_digits :: "string \<Rightarrow> string list" where
  \<comment> \<open>\<open>re.findall\<close> of the pattern for a run of digits: the maximal runs, from left to right.\<close>
  "findall_digits [] = []"
| "findall_digits (c # cs) =
     (if is_digit c then takeWhile is_digit (c # cs) # findall_digits (dropWhile is_digit cs)
      else findall_digits cs)"
  by pat_completeness auto
termination
  by (relation "measure length") (auto simp: length_dropWhile_le less_Suc_eq_le)

definition isdigit :: "string \<Rightarrow> bool" where
  \<comment> \<open>\<open>str.isdigit\<close>: a non-empty string of digits, the superscripts 1, 2 and 3 among
      them.\<close>
  "isdigit s =
     (s \<noteq> [] \<and> list_all (\<lambda>c. is_digit c \<or> c \<in> set [CHR 0xB2, CHR 0xB3, CHR 0xB9]) s)"

definition NO_DATA :: string where
  "NO_DATA = ''Belum ada data''"

definition bads :: "string list" where
  "bads = [[], ''nan'', ''none'']"

fun last_number_loop :: "string list \<Rightarrow> string option" where
  "last_number_loop [] = None"
| "last_number_loop (val # vals) =
     (let v = strip val
      in if v = [] \<or> lower v \<in> set bads \<or> v = ''0'' then last_number_loop vals
         else (let nums = findall_digits v
               in if nums \<noteq> [] then Some (v @ '' (angka: '' @ last nums @ '')'')
                  else (let cleaned = remove1 (CHR ''.'') v
                        in if isdigit cleaned then Some v
                           else Some v)))"

definition column_strings :: "'f pyfloat \<Rightarrow> 'f dataframe \<Rightarrow> string \<Rightarrow> string list" where
  \<comment> \<open>\<open>df[column_name].astype(str).fillna("").map(lambda x: x.strip())\<close>\<close>
  "column_strings F df column_name =
     map (\<lambda>row. strip (cell_str F (row_get (columns df) row column_name Missing))) (rows df)"

definition get_last_number_from_column :: "'f pyfloat \<Rightarrow> 'f dataframe option \<Rightarrow> string \<Rightarrow> string" where
  "get_last_number_from_column F df column_name =
     (case df of
        None \<Rightarrow> NO_DATA
      | Some d \<Rightarrow>
          if df_empty d \<or> column_name \<notin> set (columns d) then NO_DATA
          else (let s = column_strings F d column_name;
                    s_filtered = filter (\<lambda>x. lower x \<notin> set bads) s
                in if s_filtered = [] then NO_DATA
                   else (case last_number_loop (rev s_filtered) of
                           Some r \<Rightarrow> r
                         | None \<Rightarrow> last s_filtered)))"

text \<open>
  The words of the specification for the scan, for comparison with
  \<open>get_last_number_from_column\<close>: a value qualifies when it is not blank, \<open>nan\<close>, \<open>none\<close>
  (in any case of the letters) or \<open>0\<close>, and a qualifying value is reported with its last
  run of digits when it has one.
\<close>

definition qualifies :: "string \<Rightarrow> bool" where
  "qualifies v = (lower v \<notin> set bads \<and> v \<noteq> ''0'')"

definition report_value :: "string \<Rightarrow> string" where
  "report_value v =
     (if findall_digits v \<noteq> [] then v @ '' (angka: '' @ last (findall_digits v) @ '')'' else v)"

section \<open>sheet_io.py and the state of a session\<close>

text \<open>
  What a submission can change: the worksheet behind the application (its data rows,
  each a list of cell texts), the dataset and the map kept in \<open>st.session_state\<close>, the
  files handed to the Drive upload, and what the page shows. Of the page only the
  notices are kept (\<open>st.info\<close>, \<open>st.warning\<close>, \<open>st.error\<close>, \<open>st.success\<close>), and of
  these the ones that \<open>render_input_form\<close> and \<open>make_map\<close> show themselves: the
  notices of the Drive helpers about their own failures are not recorded, and the text of
  an exception inside a notice is left out.
\<close>

record 'f world =
  sheet :: "string list list"
  session_df :: "'f dataframe option"
  session_map :: "'f folium_map option"
  drive_uploads :: "string list"
  page :: "ui list"

definition append_row :: "string list \<Rightarrow> 'f world \<Rightarrow> 'f world" where
  \<comment> \<open>\<open>append_row(gc, row_values)\<close> of sheet_io.py, on a worksheet that can be opened.\<close>
  "append_row row_values w = w\<lparr>sheet := sheet w @ [row_values]\<rparr>"

section \<open>forms.py: the submission\<close>

text \<open>
  One run of \<open>render_input_form\<close> reads the widgets of the page: the level chosen above
  the form (\<open>st.session_state[LEVEL_STATE_KEY]\<close>, empty when nothing is chosen), the
  coordinate text, the value of the input rendered for a column (the text typed, the
  option selected, the date formatted as DD/MM/YYYY), the file uploaded for a
  documentation column (its name) and whether the submit button was pressed.

  The dict \<open>input_vals\<close> is modelled by its two uses: the texts stored under the column
  names, and the files stored under the keys \<open>_uploaded_file_<column>\<close>, which are removed
  before the row is built. No column is named like such a key. The entries
  \<open>Latitude\<close> and \<open>Longitude\<close> of the dict hold the parsed floats and are never read.
\<close>

record form_input =
  level_state :: string
  coordinates :: string
  entered :: "string \<Rightarrow> string"
  uploaded :: "string \<Rightarrow> string option"
  submitted :: bool

text \<open>
  The outcome of the upload sequence for one file, decided outside the program:
  \<open>save_uploaded_file\<close> returns no path; no OAuth credentials; an exception of the Drive
  calls; \<open>upload_to_drive_oauth_only\<close> returns \<open>None\<close>; or it returns a URL. The field
  \<open>drive_uploads\<close> of the state lists the columns whose file entered this sequence.
\<close>

datatype upload_outcome = SaveFailed | NoCredentials | DriveError | UploadFailed | Uploaded string

fun split_comma :: "string \<Rightarrow> string list" where
  \<comment> \<open>\<open>s.split(",")\<close>\<close>
  "split_comma [] = [[]]"
| "split_comma (c # cs) =
     (if c = CHR '','' then [] # split_comma cs
      else (case split_comma cs of
              [] \<Rightarrow> [[c]]
            | p # ps \<Rightarrow> (c # p) # ps))"

definition COORD_ERROR :: string where
  "COORD_ERROR = ''Format koordinat salah. Pastikan formatnya adalah Latitude, Longitude (misal: -7.93813533, 112.6332461).''"

definition parse_coordinates :: "'f pyfloat \<Rightarrow> string \<Rightarrow> ('f option \<times> 'f option) \<times> ui list" where
  \<comment> \<open>The \<open>try\<close> block on the coordinate text: the pair, and the error shown.\<close>
  "parse_coordinates F coords =
     (if coords = [] then ((None, None), [])
      else (case map strip (split_comma coords) of
              [lat_str, lon_str] \<Rightarrow>
                (case (float_of F lat_str, float_of F lon_str) of
                   (Some lat, Some lon) \<Rightarrow> ((Some lat, Some lon), [])
                 | _ \<Rightarrow> ((None, None), [Error COORD_ERROR]))
            | _ \<Rightarrow> ((None, None), [Error COORD_ERROR])))"

type_synonym input_vals = "(string \<rightharpoonup> string) \<times> (string \<rightharpoonup> string)"

definition render_column :: "string option \<Rightarrow> form_input \<Rightarrow> input_vals \<Rightarrow> string \<Rightarrow> input_vals" where
  \<comment> \<open>One pass of the per-column loop: what it stores in \<open>input_vals\<close>.\<close>
  "render_column level_col inp iv c =
     (case column_role level_col c of
        Skipped \<Rightarrow> iv
      | Documentation \<Rightarrow>
          ((fst iv)(c \<mapsto> []),
           (case uploaded inp c of
              None \<Rightarrow> snd iv
            | Some file \<Rightarrow> (snd iv)(c \<mapsto> file)))
      | _ \<Rightarrow> ((fst iv)(c \<mapsto> entered inp c), snd iv))"

definition render_inputs :: "string option \<Rightarrow> form_input \<Rightarrow> string list \<Rightarrow> input_vals" where
  "render_inputs level_col inp cols = foldl (render_column level_col inp) (Map.empty, Map.empty) cols"

definition upload_column ::
  "(string \<Rightarrow> upload_outcome) \<Rightarrow> input_vals \<Rightarrow> (string \<rightharpoonup> string) \<times> string list \<times> ui list
     \<Rightarrow> string \<Rightarrow> (string \<rightharpoonup> string) \<times> string list \<times> ui list" where
  \<comment> \<open>One pass of the upload loop for the column \<open>col\<close>: the texts of \<open>input_vals\<close>, the
      files handed over so far and the notices.\<close>
  "upload_column drive iv st col =
     (case st of (vals, ups, msgs) \<Rightarrow>
        (case snd iv col of
           None \<Rightarrow> st
         | Some file \<Rightarrow>
             (case drive col of
                SaveFailed \<Rightarrow> (vals(col \<mapsto> []), ups @ [col], msgs)
              | NoCredentials \<Rightarrow>
                  (vals, ups @ [col],
                   msgs @ [Error ''Gagal mendapatkan kredensial OAuth untuk upload''])
              | DriveError \<Rightarrow>
                  (vals(col \<mapsto> []), ups @ [col], msgs @ [Error (''Error upload file '' @ col @ '': '')])
              | UploadFailed \<Rightarrow>
                  (vals(col \<mapsto> []), ups @ [col],
                   msgs @ [Warning (''File '' @ col @ '' gagal diupload. Data akan disimpan tanpa lampiran.'')])
              | Uploaded file_url \<Rightarrow>
                  if file_url \<noteq> []
                  then (vals(col \<mapsto> file_url), ups @ [col],
                        msgs @ [Success (''File '' @ col @ '' berhasil diupload menggunakan OAuth'')])
                  else (vals(col \<mapsto> []), ups @ [col],
                        msgs @ [Warning (''File '' @ col @ '' gagal diupload. Data akan disimpan tanpa lampiran.'')]))))"

definition process_uploads ::
  "(string \<Rightarrow> upload_outcome) \<Rightarrow> input_vals \<Rightarrow> string list
     \<Rightarrow> (string \<rightharpoonup> string) \<times> string list \<times> ui list" where
  "process_uploads drive iv cols = foldl (upload_column drive iv) (fst iv, [], []) cols"

definition vals_get :: "(string \<rightharpoonup> string) \<Rightarrow> string \<Rightarrow> string" where
  \<comment> \<open>\<open>input_vals.get(col, "")\<close>\<close>
  "vals_get vals col = (case vals col of None \<Rightarrow> [] | Some v \<Rightarrow> v)"

definition row_value ::
  "'f pyfloat \<Rightarrow> string option \<Rightarrow> string \<Rightarrow> 'f option \<times> 'f option \<Rightarrow> string
     \<Rightarrow> (string \<rightharpoonup> string) \<Rightarrow> string \<Rightarrow> string" where
  \<comment> \<open>The \<open>if\<close>/\<open>elif\<close> chain that appends the value of the column \<open>col\<close> to \<open>row\<close>.\<close>
  "row_value F level_col level_value latlon auto_hex vals col =
     (let cl = lower col
      in if Some col = level_col then level_value
         else if contains cl ''koordinat'' \<or> cl = ''coord'' \<or> cl = ''coordinates''
         then (case latlon of
                 (Some lat, Some lon) \<Rightarrow> str_of F lat @ '', '' @ str_of F lon
               | _ \<Rightarrow> [])
         else if cl = ''color'' then auto_hex
         else if cl \<in> set [''latitude'', ''lat'', ''longitude'', ''lon'', ''lng''] then []
         else if contains cl ''dokumentasi'' then vals_get vals col
         else if is_date_column col then vals_get vals col
         else vals_get vals col)"

definition build_row ::
  "'f pyfloat \<Rightarrow> string list \<Rightarrow> string option \<Rightarrow> string \<Rightarrow> 'f option \<times> 'f option \<Rightarrow> string
     \<Rightarrow> (string \<rightharpoonup> string) \<Rightarrow> string list" where
  \<comment> \<open>\<open>row = []\<close>, then one \<open>row.append\<close> for each column of the sheet, in order.\<close>
  "build_row F cols level_col level_value latlon auto_hex vals =
     map (row_value F level_col level_value latlon auto_hex vals) cols"

definition float_cell :: "'f pyfloat \<Rightarrow> 'f \<Rightarrow> 'f cell" where
  \<comment> \<open>A float stored in a frame: \<open>NaN\<close> is the missing value.\<close>
  "float_cell F x = (if isnan F x then Missing else Num x)"

definition new_row_value ::
  "'f pyfloat \<Rightarrow> string option \<Rightarrow> string \<Rightarrow> string \<Rightarrow> 'f option \<times> 'f option \<Rightarrow> string
     \<Rightarrow> (string \<rightharpoonup> string) \<Rightarrow> string \<Rightarrow> 'f cell" where
  \<comment> \<open>The chain that fills \<open>new_row[col]\<close> for the local copy of the dataset.\<close>
  "new_row_value F level_col level_value coords latlon auto_hex vals col =
     (let cl = lower col
      in if Some col = level_col then Str level_value
         else if contains cl ''koordinat'' \<or> cl = ''coord'' \<or> cl = ''coordinates'' then Str coords
         else if cl = ''color'' then Str auto_hex
         else if cl \<in> set [''latitude'', ''lat'']
         then (case fst latlon of None \<Rightarrow> Str [] | Some lat \<Rightarrow> float_cell F lat)
         else if cl \<in> set [''longitude'', ''lon'', ''lng'']
         then (case snd latlon of None \<Rightarrow> Str [] | Some lon \<Rightarrow> float_cell F lon)
         else if is_date_column col then Str (vals_get vals col)
         else Str (vals_get vals col))"

definition concat_row :: "'f dataframe \<Rightarrow> string list \<Rightarrow> 'f cell list \<Rightarrow> 'f dataframe" where
  \<comment> \<open>\<open>pd.concat([local_df, pd.DataFrame([new_row])], ignore_index=True)\<close>: the columns of
      the frame, then the new ones; every row aligned to them, a missing value where a
      row has no such column.\<close>
  "concat_row local_df cols new_row =
     (let all_cols = columns local_df @ filter (\<lambda>c. c \<notin> set (columns local_df)) cols
      in \<lparr>columns = all_cols,
          rows = map (\<lambda>r. map (\<lambda>c. row_get (columns local_df) r c Missing) all_cols) (rows local_df)
                 @ [map (\<lambda>c. row_get cols new_row c Missing) all_cols]\<rparr>)"

definition join_lines :: "string list \<Rightarrow> string" where
  \<comment> \<open>\<open>"\n".join(xs)\<close>\<close>
  "join_lines xs = (case xs of [] \<Rightarrow> [] | y # ys \<Rightarrow> foldl (\<lambda>acc x. acc @ [CHR 0x0A] @ x) y ys)"

definition date_summary :: "string list \<Rightarrow> (string \<rightharpoonup> string) \<Rightarrow> ui list" where
  "date_summary cols vals =
     (let summary = map (\<lambda>col. ''**'' @ col @ ''**: '' @ vals_get vals col)
                        (filter (\<lambda>col. is_date_column col \<and> vals col \<noteq> None \<and> vals_get vals col \<noteq> []) cols)
      in if summary \<noteq> []
         then [Info (''**Tanggal yang diinput:**'' @ [CHR 0x0A] @ join_lines summary)]
         else [])"

definition submit_cycle ::
  "'f pyfloat \<Rightarrow> (string \<Rightarrow> upload_outcome) \<Rightarrow> 'f dataframe \<Rightarrow> form_input \<Rightarrow> string option
     \<Rightarrow> 'f option \<times> 'f option \<Rightarrow> input_vals \<Rightarrow> 'f world \<Rightarrow> 'f world" where
  \<comment> \<open>The body of \<open>if submitted:\<close> after the validation of the level: the uploads, the
      row, the local copy of the dataset and its map, the notices. The list \<open>row\<close> is
      built and not used again. An exception of \<open>make_map\<close> is caught and passed over:
      the map of the session stays as it was.\<close>
  "submit_cycle F drive df inp level_col latlon iv w1 =
     (let level_value = level_state inp;
          auto_hex = risk_to_color_hex level_value DEFAULT_HEX;
          (vals, ups, up_msgs) = process_uploads drive iv (columns df);
          row = build_row F (columns df) level_col level_value latlon auto_hex vals;
          local_df = (case session_df w1 of
                        None \<Rightarrow> \<lparr>columns = columns df, rows = []\<rparr>
                      | Some existing_df \<Rightarrow>
                          if df_empty existing_df then \<lparr>columns = columns df, rows = []\<rparr>
                          else existing_df);
          new_row = map (new_row_value F level_col level_value (coordinates inp)
                           latlon auto_hex vals) (columns df);
          local_df' = concat_row local_df (columns df) new_row;
          (new_map, map_msgs) =
            (case make_map F (Some local_df') ''Color'' True of
               Inl e \<Rightarrow> (session_map w1, [])
             | Inr res \<Rightarrow> res)
      in w1\<lparr>session_df := Some local_df',
             session_map := new_map,
             drive_uploads := drive_uploads w1 @ ups,
             page := page w1 @ up_msgs @ map_msgs
               @ [Success ''Baris berhasil ditambahkan ke Google Sheets (peta diperbarui secara lokal).'']
               @ date_summary (columns df) vals\<rparr>)"

definition render_input_form ::
  "'f pyfloat \<Rightarrow> (string \<Rightarrow> upload_outcome) \<Rightarrow> 'f dataframe \<Rightarrow> form_input \<Rightarrow> 'f world \<Rightarrow> 'f world" where
  \<comment> \<open>\<open>render_input_form(df, gc)\<close> as a function of the widgets \<open>inp\<close>, the outcome of
      the uploads \<open>drive\<close> and the state before the run.\<close>
  "render_input_form F drive df inp w =
     (if columns df = []
      then w\<lparr>page := page w @ [Warning ''Sheet tampak tidak memiliki header kolom.'']\<rparr>
      else
        (let level_col = find_level_col (columns df);
             (latlon, coord_msgs) = parse_coordinates F (coordinates inp);
             iv = render_inputs level_col inp (columns df);
             w1 = w\<lparr>page := page w @ coord_msgs\<rparr>
         in if \<not> submitted inp then w1
            else (case level_col of
                    None \<Rightarrow> submit_cycle F drive df inp level_col latlon iv w1
                  | Some lc \<Rightarrow>
                      if level_state inp = []
                      then w1\<lparr>page := page w1 @
                               [Error (''Silakan pilih '' @ lc @ '' terlebih dahulu (di atas).'')]\<rparr>
                      else submit_cycle F drive df inp level_col latlon iv w1)))"

definition assembled_row ::
  "'f pyfloat \<Rightarrow> (string \<Rightarrow> upload_outcome) \<Rightarrow> 'f dataframe \<Rightarrow> form_input \<Rightarrow> string list" where
  \<comment> \<open>The list \<open>row\<close> of \<open>render_input_form\<close> when the loop that builds it has ended, in
      a submission that passed the validation: \<open>build_row\<close> on the values that
      \<open>submit_cycle\<close> passes to it.\<close>
  "assembled_row F drive df inp =
     (let level_col = find_level_col (columns df);
          (latlon, coord_msgs) = parse_coordinates F (coordinates inp);
          iv = render_inputs level_col inp (columns df);
          level_value = level_state inp;
          auto_hex = risk_to_color_hex level_value DEFAULT_HEX;
          (vals, ups, up_msgs) = process_uploads drive iv (columns df)
      in build_row F (columns df) level_col level_value latlon auto_hex vals)"

definition upload_effect :: "upload_outcome \<Rightarrow> string option \<Rightarrow> string option" where
  \<comment> \<open>What one pass of the upload loop stores under the column of a pending file.\<close>
  "upload_effect out old =
     (case out of
        NoCredentials \<Rightarrow> old
      | Uploaded file_url \<Rightarrow> Some file_url
      | _ \<Rightarrow> Some [])"

section \<open>app.py: the fingerprint of the dataset\<close>

text \<open>
  Python's \<open>str\<close> of the shape, of the list of column names and of a row, and
  \<open>hashlib.md5\<close>, are parameters of the fingerprint.
\<close>

record 'f pyrepr =
  md5_hex :: "string \<Rightarrow> string"
  str_shape :: "nat \<times> nat \<Rightarrow> string"
  str_names :: "string list \<Rightarrow> string"
  str_row :: "'f cell list \<Rightarrow> string"

definition get_data_hash :: "'f pyrepr \<Rightarrow> 'f dataframe \<Rightarrow> string" where
  "get_data_hash R df =
     (if df_empty df then ''empty''
      else (let data_str = str_shape R (length (rows df), length (columns df))
                             @ str_names R (columns df);
                data_str' = data_str @ str_row R (hd (rows df)) @ str_row R (last (rows df))
            in md5_hex R data_str'))"

definition data_changed :: "'f pyrepr \<Rightarrow> 'f dataframe \<Rightarrow> string \<Rightarrow> bool" where
  \<comment> \<open>\<open>data_changed = current_hash != st.session_state.last_data_hash\<close> of \<open>main\<close>.\<close>
  "data_changed R df_from_sheets last_data_hash = (get_data_hash R df_from_sheets \<noteq> last_data_hash)"

definition map_rebuild :: "'f pyrepr \<Rightarrow> 'f dataframe \<Rightarrow> string \<Rightarrow> 'f folium_map option \<Rightarrow> bool" where
  \<comment> \<open>The test of \<open>main\<close> that guards the call of \<open>make_map\<close>:
      \<open>current_map_hash != st.session_state.map_hash or st.session_state.cached_map is None\<close>.\<close>
  "map_rebuild R df_session map_hash cached_map =
     (get_data_hash R df_session \<noteq> map_hash \<or> cached_map = None)"

section \<open>An instance of the float operations\<close>

text \<open>
  The theorems hold for every \<open>F\<close>. Their examples need one: here a float is a term,
  the decimal numeral it was read from, \<open>NaN\<close>, or the mean of a list of such terms.
  \<open>float\<close> accepts a plain decimal numeral and the word \<open>nan\<close> (after \<open>strip\<close>, in any
  case of the letters) and nothing else, \<open>str\<close> gives the numeral back, and the mean of a
  list passes over \<open>NaN\<close> and is \<open>NaN\<close> when nothing is left.
\<close>

datatype sym_float = Dec string | NaN | Mean "sym_float list"

definition text_float :: "sym_float pyfloat" where
  "text_float =
     \<lparr>float_of = (\<lambda>s. if match_float (strip s) = Some (strip s, []) then Some (Dec (strip s))
                       else if lower (strip s) = ''nan'' then Some NaN
                       else None),
      str_of = (\<lambda>x. case x of Dec s \<Rightarrow> s | NaN \<Rightarrow> ''nan'' | Mean xs \<Rightarrow> ''mean''),
      isnan = (\<lambda>x. x = NaN),
      mean = (\<lambda>xs. if filter (\<lambda>x. x \<noteq> NaN) xs = [] then NaN
                     else Mean (filter (\<lambda>x. x \<noteq> NaN) xs))\<rparr>"

section \<open>Facts about the string operations\<close>

lemma lower_char_cases:
  "lower_char c = c \<or>
   (c, lower_char c) \<in> set
     (zip (''ABCDEFGHIJKLMNOPQRSTUVWXYZ'' @
           [CHR 0xC0, CHR 0xC1, CHR 0xC2, CHR 0xC3, CHR 0xC4, CHR 0xC5, CHR 0xC6, CHR 0xC7,
            CHR 0xC8, CHR 0xC9, CHR 0xCA, CHR 0xCB, CHR 0xCC, CHR 0xCD, CHR 0xCE, CHR 0xCF,
            CHR 0xD0, CHR 0xD1, CHR 0xD2, CHR 0xD3, CHR 0xD4, CHR 0xD5, CHR 0xD6,
            CHR 0xD8, CHR 0xD9, CHR 0xDA, CHR 0xDB, CHR 0xDC, CHR 0xDD, CHR 0xDE])
          (''abcdefghijklmnopqrstuvwxyz'' @
           [CHR 0xE0, CHR 0xE1, CHR 0xE2, CHR 0xE3, CHR 0xE4, CHR 0xE5, CHR 0xE6, CHR 0xE7,
            CHR 0xE8, CHR 0xE9, CHR 0xEA, CHR 0xEB, CHR 0xEC, CHR 0xED, CHR 0xEE, CHR 0xEF,
            CHR 0xF0, CHR 0xF1, CHR 0xF2, CHR 0xF3, CHR 0xF4, CHR 0xF5, CHR 0xF6,
            CHR 0xF8, CHR 0xF9, CHR 0xFA, CHR 0xFB, CHR 0xFC, CHR 0xFD, CHR 0xFE]))"
  unfolding lower_char_def
  by (cases "map_of
     (zip (''ABCDEFGHIJKLMNOPQRSTUVWXYZ'' @
           [CHR 0xC0, CHR 0xC1, CHR 0xC2, CHR 0xC3, CHR 0xC4, CHR 0xC5, CHR 0xC6, CHR 0xC7,
            CHR 0xC8, CHR 0xC9, CHR 0xCA, CHR 0xCB, CHR 0xCC, CHR 0xCD, CHR 0xCE, CHR 0xCF,
            CHR 0xD0, CHR 0xD1, CHR 0xD2, CHR 0xD3, CHR 0xD4, CHR 0xD5, CHR 0xD6,
            CHR 0xD8, CHR 0xD9, CHR 0xDA, CHR 0xDB, CHR 0xDC, CHR 0xDD, CHR 0xDE])
          (''abcdefghijklmnopqrstuvwxyz'' @
           [CHR 0xE0, CHR 0xE1, CHR 0xE2, CHR 0xE3, CHR 0xE4, CHR 0xE5, CHR 0xE6, CHR 0xE7,
            CHR 0xE8, CHR 0xE9, CHR 0xEA, CHR 0xEB, CHR 0xEC, CHR 0xED, CHR 0xEE, CHR 0xEF,
            CHR 0xF0, CHR 0xF1, CHR 0xF2, CHR 0xF3, CHR 0xF4, CHR 0xF5, CHR 0xF6,
            CHR 0xF8, CHR 0xF9, CHR 0xFA, CHR 0xFB, CHR 0xFC, CHR 0xFD, CHR 0xFE])) c")
     (simp_all only: option.case map_of_SomeD simp_thms)

lemma is_space_lower_char: "is_space (lower_char c) = is_space c"
proof -
  from lower_char_cases [of c] show ?thesis
  proof
    assume "lower_char c = c"
    then show ?thesis by simp
  next
    assume "(c, lower_char c) \<in> set
     (zip (''ABCDEFGHIJKLMNOPQRSTUVWXYZ'' @
           [CHR 0xC0, CHR 0xC1, CHR 0xC2, CHR 0xC3, CHR 0xC4, CHR 0xC5, CHR 0xC6, CHR 0xC7,
            CHR 0xC8, CHR 0xC9, CHR 0xCA, CHR 0xCB, CHR 0xCC, CHR 0xCD, CHR 0xCE, CHR 0xCF,
            CHR 0xD0, CHR 0xD1, CHR 0xD2, CHR 0xD3, CHR 0xD4, CHR 0xD5, CHR 0xD6,
            CHR 0xD8, CHR 0xD9, CHR 0xDA, CHR 0xDB, CHR 0xDC, CHR 0xDD, CHR 0xDE])
          (''abcdefghijklmnopqrstuvwxyz'' @
           [CHR 0xE0, CHR 0xE1, CHR 0xE2, CHR 0xE3, CHR 0xE4, CHR 0xE5, CHR 0xE6, CHR 0xE7,
            CHR 0xE8, CHR 0xE9, CHR 0xEA, CHR 0xEB, CHR 0xEC, CHR 0xED, CHR 0xEE, CHR 0xEF,
            CHR 0xF0, CHR 0xF1, CHR 0xF2, CHR 0xF3, CHR 0xF4, CHR 0xF5, CHR 0xF6,
            CHR 0xF8, CHR 0xF9, CHR 0xFA, CHR 0xFB, CHR 0xFC, CHR 0xFD, CHR 0xFE]))"
    then have "(c, lower_char c) \<in> {p. is_space (snd p) = is_space (fst p)}"
      by (rule rev_subsetD) (simp add: is_space_def)
    then show ?thesis by simp
  qed
qed

lemma dropWhile_map_inv:
  "(\<And>x. P (f x) = P x) \<Longrightarrow> dropWhile P (map f xs) = map f (dropWhile P xs)"
  by (induction xs) simp_all

lemma strip_lower: "strip (lower s) = lower (strip s)"
  by (simp add: strip_def lower_def rev_map dropWhile_map_inv is_space_lower_char)

lemma dropWhile_all: "\<forall>x\<in>set xs. P x \<Longrightarrow> dropWhile P (xs @ ys) = dropWhile P ys"
  by (induction xs) simp_all

lemma strip_pad: "strip (filter is_space a @ s @ filter is_space b) = strip s"
proof -
  let ?a = "filter is_space a" and ?b = "filter is_space b"
  have a: "dropWhile is_space (?a @ s @ ?b) = dropWhile is_space (s @ ?b)"
    by (rule dropWhile_all) simp
  have b: "dropWhile is_space ?b = []"
    by simp
  show ?thesis
  proof (cases "\<forall>x\<in>set s. is_space x")
    case True
    then have "dropWhile is_space (s @ ?b) = dropWhile is_space ?b"
      by (rule dropWhile_all)
    with a b have "dropWhile is_space (?a @ s @ ?b) = []"
      by (simp only:)
    then have "strip (?a @ s @ ?b) = []"
      unfolding strip_def by (simp only: rev.simps dropWhile.simps)
    moreover from True have "dropWhile is_space s = []"
      by simp
    then have "strip s = []"
      unfolding strip_def by (simp only: rev.simps dropWhile.simps)
    ultimately show ?thesis
      by (simp only:)
  next
    case False
    then obtain x where x: "x \<in> set s" "\<not> is_space x"
      by blast
    then have "dropWhile is_space (s @ ?b) = dropWhile is_space s @ ?b"
      by (rule dropWhile_append1)
    with a have "rev (dropWhile is_space (?a @ s @ ?b)) = rev ?b @ rev (dropWhile is_space s)"
      by (simp only: rev_append)
    moreover have "dropWhile is_space (rev ?b @ rev (dropWhile is_space s))
        = dropWhile is_space (rev (dropWhile is_space s))"
      by (rule dropWhile_all) simp
    ultimately show ?thesis
      unfolding strip_def by (simp only:)
  qed
qed

lemma dict_get_RISK_TO_HEX:
  "dict_get RISK_TO_HEX k d =
     (if k = ''lower'' then ''#3d3d3d''
      else if k = ''low'' then ''#7db86a''
      else if k = ''medium'' then ''#f2e804''
      else if k = ''high'' then ''#ffaa00''
      else if k = ''emergency'' then ''#b10202''
      else d)"
  by (simp add: dict_get_def RISK_TO_HEX_def)

lemma strip_Nil: "strip [] = []"
  by (simp add: strip_def)

lemma risk_to_color_hex_key:
  "risk_to_color_hex rv d = dict_get RISK_TO_HEX (lower (strip rv)) d"
  by (simp add: risk_to_color_hex_def strip_Nil lower_def dict_get_RISK_TO_HEX)

text \<open>The two character functions on the printable ASCII characters, for evaluation.\<close>

lemma lower_char_ascii:
  "lower_char (CHR 0x20) = CHR 0x20"
  "lower_char (CHR 0x21) = CHR 0x21"
  "lower_char (CHR 0x22) = CHR 0x22"
  "lower_char (CHR 0x23) = CHR 0x23"
  "lower_char (CHR 0x24) = CHR 0x24"
  "lower_char (CHR 0x25) = CHR 0x25"
  "lower_char (CHR 0x26) = CHR 0x26"
  "lower_char (CHR 0x27) = CHR 0x27"
  "lower_char (CHR 0x28) = CHR 0x28"
  "lower_char (CHR 0x29) = CHR 0x29"
  "lower_char (CHR 0x2A) = CHR 0x2A"
  "lower_char (CHR 0x2B) = CHR 0x2B"
  "lower_char (CHR 0x2C) = CHR 0x2C"
  "lower_char (CHR 0x2D) = CHR 0x2D"
  "lower_char (CHR 0x2E) = CHR 0x2E"
  "lower_char (CHR 0x2F) = CHR 0x2F"
  "lower_char (CHR 0x30) = CHR 0x30"
  "lower_char (CHR 0x31) = CHR 0x31"
  "lower_char (CHR 0x32) = CHR 0x32"
  "lower_char (CHR 0x33) = CHR 0x33"
  "lower_char (CHR 0x34) = CHR 0x34"
  "lower_char (CHR 0x35) = CHR 0x35"
  "lower_char (CHR 0x36) = CHR 0x36"
  "lower_char (CHR 0x37) = CHR 0x37"
  "lower_char (CHR 0x38) = CHR 0x38"
  "lower_char (CHR 0x39) = CHR 0x39"
  "lower_char (CHR 0x3A) = CHR 0x3A"
  "lower_char (CHR 0x3B) = CHR 0x3B"
  "lower_char (CHR 0x3C) = CHR 0x3C"
  "lower_char (CHR 0x3D) = CHR 0x3D"
  "lower_char (CHR 0x3E) = CHR 0x3E"
  "lower_char (CHR 0x3F) = CHR 0x3F"
  "lower_char (CHR 0x40) = CHR 0x40"
  "lower_char (CHR 0x41) = CHR 0x61"
  "lower_char (CHR 0x42) = CHR 0x62"
  "lower_char (CHR 0x43) = CHR 0x63"
  "lower_char (CHR 0x44) = CHR 0x64"
  "lower_char (CHR 0x45) = CHR 0x65"
  "lower_char (CHR 0x46) = CHR 0x66"
  "lower_char (CHR 0x47) = CHR 0x67"
  "lower_char (CHR 0x48) = CHR 0x68"
  "lower_char (CHR 0x49) = CHR 0x69"
  "lower_char (CHR 0x4A) = CHR 0x6A"
  "lower_char (CHR 0x4B) = CHR 0x6B"
  "lower_char (CHR 0x4C) = CHR 0x6C"
  "lower_char (CHR 0x4D) = CHR 0x6D"
  "lower_char (CHR 0x4E) = CHR 0x6E"
  "lower_char (CHR 0x4F) = CHR 0x6F"
  "lower_char (CHR 0x50) = CHR 0x70"
  "lower_char (CHR 0x51) = CHR 0x71"
  "lower_char (CHR 0x52) = CHR 0x72"
  "lower_char (CHR 0x53) = CHR 0x73"
  "lower_char (CHR 0x54) = CHR 0x74"
  "lower_char (CHR 0x55) = CHR 0x75"
  "lower_char (CHR 0x56) = CHR 0x76"
  "lower_char (CHR 0x57) = CHR 0x77"
  "lower_char (CHR 0x58) = CHR 0x78"
  "lower_char (CHR 0x59) = CHR 0x79"
  "lower_char (CHR 0x5A) = CHR 0x7A"
  "lower_char (CHR 0x5B) = CHR 0x5B"
  "lower_char (CHR 0x5C) = CHR 0x5C"
  "lower_char (CHR 0x5D) = CHR 0x5D"
  "lower_char (CHR 0x5E) = CHR 0x5E"
  "lower_char (CHR 0x5F) = CHR 0x5F"
  "lower_char (CHR 0x60) = CHR 0x60"
  "lower_char (CHR 0x61) = CHR 0x61"
  "lower_char (CHR 0x62) = CHR 0x62"
  "lower_char (CHR 0x63) = CHR 0x63"
  "lower_char (CHR 0x64) = CHR 0x64"
  "lower_char (CHR 0x65) = CHR 0x65"
  "lower_char (CHR 0x66) = CHR 0x66"
  "lower_char (CHR 0x67) = CHR 0x67"
  "lower_char (CHR 0x68) = CHR 0x68"
  "lower_char (CHR 0x69) = CHR 0x69"
  "lower_char (CHR 0x6A) = CHR 0x6A"
  "lower_char (CHR 0x6B) = CHR 0x6B"
  "lower_char (CHR 0x6C) = CHR 0x6C"
  "lower_char (CHR 0x6D) = CHR 0x6D"
  "lower_char (CHR 0x6E) = CHR 0x6E"
  "lower_char (CHR 0x6F) = CHR 0x6F"
  "lower_char (CHR 0x70) = CHR 0x70"
  "lower_char (CHR 0x71) = CHR 0x71"
  "lower_char (CHR 0x72) = CHR 0x72"
  "lower_char (CHR 0x73) = CHR 0x73"
  "lower_char (CHR 0x74) = CHR 0x74"
  "lower_char (CHR 0x75) = CHR 0x75"
  "lower_char (CHR 0x76) = CHR 0x76"
  "lower_char (CHR 0x77) = CHR 0x77"
  "lower_char (CHR 0x78) = CHR 0x78"
  "lower_char (CHR 0x79) = CHR 0x79"
  "lower_char (CHR 0x7A) = CHR 0x7A"
  "lower_char (CHR 0x7B) = CHR 0x7B"
  "lower_char (CHR 0x7C) = CHR 0x7C"
  "lower_char (CHR 0x7D) = CHR 0x7D"
  "lower_char (CHR 0x7E) = CHR 0x7E"
  by (simp_all add: lower_char_def)

lemma is_space_ascii:
  "is_space (CHR 0x20) = True"
  "is_space (CHR 0x21) = False"
  "is_space (CHR 0x22) = False"
  "is_space (CHR 0x23) = False"
  "is_space (CHR 0x24) = False"
  "is_space (CHR 0x25) = False"
  "is_space (CHR 0x26) = False"
  "is_space (CHR 0x27) = False"
  "is_space (CHR 0x28) = False"
  "is_space (CHR 0x29) = False"
  "is_space (CHR 0x2A) = False"
  "is_space (CHR 0x2B) = False"
  "is_space (CHR 0x2C) = False"
  "is_space (CHR 0x2D) = False"
  "is_space (CHR 0x2E) = False"
  "is_space (CHR 0x2F) = False"
  "is_space (CHR 0x30) = False"
  "is_space (CHR 0x31) = False"
  "is_space (CHR 0x32) = False"
  "is_space (CHR 0x33) = False"
  "is_space (CHR 0x34) = False"
  "is_space (CHR 0x35) = False"
  "is_space (CHR 0x36) = False"
  "is_space (CHR 0x37) = False"
  "is_space (CHR 0x38) = False"
  "is_space (CHR 0x39) = False"
  "is_space (CHR 0x3A) = False"
  "is_space (CHR 0x3B) = False"
  "is_space (CHR 0x3C) = False"
  "is_space (CHR 0x3D) = False"
  "is_space (CHR 0x3E) = False"
  "is_space (CHR 0x3F) = False"
  "is_space (CHR 0x40) = False"
  "is_space (CHR 0x41) = False"
  "is_space (CHR 0x42) = False"
  "is_space (CHR 0x43) = False"
  "is_space (CHR 0x44) = False"
  "is_space (CHR 0x45) = False"
  "is_space (CHR 0x46) = False"
  "is_space (CHR 0x47) = False"
  "is_space (CHR 0x48) = False"
  "is_space (CHR 0x49) = False"
  "is_space (CHR 0x4A) = False"
  "is_space (CHR 0x4B) = False"
  "is_space (CHR 0x4C) = False"
  "is_space (CHR 0x4D) = False"
  "is_space (CHR 0x4E) = False"
  "is_space (CHR 0x4F) = False"
  "is_space (CHR 0x50) = False"
  "is_space (CHR 0x51) = False"
  "is_space (CHR 0x52) = False"
  "is_space (CHR 0x53) = False"
  "is_space (CHR 0x54) = False"
  "is_space (CHR 0x55) = False"
  "is_space (CHR 0x56) = False"
  "is_space (CHR 0x57) = False"
  "is_space (CHR 0x58) = False"
  "is_space (CHR 0x59) = False"
  "is_space (CHR 0x5A) = False"
  "is_space (CHR 0x5B) = False"
  "is_space (CHR 0x5C) = False"
  "is_space (CHR 0x5D) = False"
  "is_space (CHR 0x5E) = False"
  "is_space (CHR 0x5F) = False"
  "is_space (CHR 0x60) = False"
  "is_space (CHR 0x61) = False"
  "is_space (CHR 0x62) = False"
  "is_space (CHR 0x63) = False"
  "is_space (CHR 0x64) = False"
  "is_space (CHR 0x65) = False"
  "is_space (CHR 0x66) = False"
  "is_space (CHR 0x67) = False"
  "is_space (CHR 0x68) = False"
  "is_space (CHR 0x69) = False"
  "is_space (CHR 0x6A) = False"
  "is_space (CHR 0x6B) = False"
  "is_space (CHR 0x6C) = False"
  "is_space (CHR 0x6D) = False"
  "is_space (CHR 0x6E) = False"
  "is_space (CHR 0x6F) = False"
  "is_space (CHR 0x70) = False"
  "is_space (CHR 0x71) = False"
  "is_space (CHR 0x72) = False"
  "is_space (CHR 0x73) = False"
  "is_space (CHR 0x74) = False"
  "is_space (CHR 0x75) = False"
  "is_space (CHR 0x76) = False"
  "is_space (CHR 0x77) = False"
  "is_space (CHR 0x78) = False"
  "is_space (CHR 0x79) = False"
  "is_space (CHR 0x7A) = False"
  "is_space (CHR 0x7B) = False"
  "is_space (CHR 0x7C) = False"
  "is_space (CHR 0x7D) = False"
  "is_space (CHR 0x7E) = False"
  by (simp_all add: is_space_def)

section \<open>The risk-colour mapper\<close>

text \<open>
  Claim C8, as the code has it. \<open>risk_to_color_hex\<close> is a total function of the label and
  the default: the result is decided by the label trimmed of surrounding whitespace and
  lowered, looked up in the fixed table lower, low, medium, high, emergency; every other
  label, the empty one included, gives the caller's default as it was passed. Padding the
  label with whitespace or changing the case of its letters does not change the result:
  two labels that are equal after lowering get the same colour. The result is a hash sign
  with 3 or 6 hexadecimal digits whenever the default is one, as the default \<open>#3388ff\<close>
  of the function is. The function has no raising path on a string, so its model has no
  error value.
\<close>

theorem risk_to_color_hex_total:
  "risk_to_color_hex rv d =
     (if lower (strip rv) = ''lower'' then ''#3d3d3d''
      else if lower (strip rv) = ''low'' then ''#7db86a''
      else if lower (strip rv) = ''medium'' then ''#f2e804''
      else if lower (strip rv) = ''high'' then ''#ffaa00''
      else if lower (strip rv) = ''emergency'' then ''#b10202''
      else d)
   \<and> risk_to_color_hex [] d = d
   \<and> risk_to_color_hex (filter is_space a @ rv @ filter is_space b) d = risk_to_color_hex rv d
   \<and> (lower rv = lower rv' \<longrightarrow> risk_to_color_hex rv d = risk_to_color_hex rv' d)
   \<and> (hex_fullmatch d \<longrightarrow> hex_fullmatch (risk_to_color_hex rv d))
   \<and> hex_fullmatch (risk_to_color_hex rv DEFAULT_HEX)"
proof -
  have hex: "\<And>d'. hex_fullmatch d' \<longrightarrow> hex_fullmatch (risk_to_color_hex rv d')"
    by (simp add: risk_to_color_hex_key dict_get_RISK_TO_HEX hex_fullmatch_def is_hex_digit_def)
  have "hex_fullmatch DEFAULT_HEX"
    by (simp add: DEFAULT_HEX_def hex_fullmatch_def is_hex_digit_def)
  with hex [of DEFAULT_HEX] have dflt: "hex_fullmatch (risk_to_color_hex rv DEFAULT_HEX)"
    by blast
  have "lower rv = lower rv' \<longrightarrow> risk_to_color_hex rv d = risk_to_color_hex rv' d"
    by (simp only: risk_to_color_hex_key strip_lower [symmetric]) simp
  moreover have "risk_to_color_hex (filter is_space a @ rv @ filter is_space b) d
      = risk_to_color_hex rv d"
    by (simp only: risk_to_color_hex_key strip_pad)
  moreover have "risk_to_color_hex [] d = d"
    by (simp add: risk_to_color_hex_def)
  moreover have "risk_to_color_hex rv d =
     (if lower (strip rv) = ''lower'' then ''#3d3d3d''
      else if lower (strip rv) = ''low'' then ''#7db86a''
      else if lower (strip rv) = ''medium'' then ''#f2e804''
      else if lower (strip rv) = ''high'' then ''#ffaa00''
      else if lower (strip rv) = ''emergency'' then ''#b10202''
      else d)"
    by (simp only: risk_to_color_hex_key dict_get_RISK_TO_HEX)
  ultimately show ?thesis
    using hex [of d] dflt by blast
qed

theorem risk_to_color_hex_total_witness:
  "risk_to_color_hex ([CHR 0xA0] @ '' MeDiUm '' @ [CHR 0x85]) ''#3388ff'' = ''#f2e804''
   \<and> risk_to_color_hex ''urgent'' ''#3388ff'' = ''#3388ff''
   \<and> hex_fullmatch (risk_to_color_hex ''urgent'' ''#3388ff'')"
proof -
  have h: "hex_fullmatch ''#3388ff''"
    by (simp add: hex_fullmatch_def is_hex_digit_def)
  have k: "lower (strip ([CHR 0xA0] @ '' MeDiUm '' @ [CHR 0x85])) = ''medium''"
    by (simp add: lower_def lower_char_def strip_def is_space_def)
  have u: "lower (strip ''urgent'') = ''urgent''"
    by (simp add: lower_def lower_char_def strip_def is_space_def)
  from risk_to_color_hex_total
      [of "[CHR 0xA0] @ '' MeDiUm '' @ [CHR 0x85]" "''#3388ff''" "[]" "[]" "[]"] k
  have a: "risk_to_color_hex ([CHR 0xA0] @ '' MeDiUm '' @ [CHR 0x85]) ''#3388ff'' = ''#f2e804''"
    by simp
  from risk_to_color_hex_total [of "''urgent''" "''#3388ff''" "[]" "[]" "[]"] u h
  have b: "risk_to_color_hex ''urgent'' ''#3388ff'' = ''#3388ff''
      \<and> hex_fullmatch (risk_to_color_hex ''urgent'' ''#3388ff'')"
    by simp
  from a b show ?thesis
    by blast
qed

text \<open>
  Claim C8 as stated fails where the caller's default is no hex string: an unrecognized
  label returns that default unchanged.
\<close>

theorem risk_to_color_hex_default_counterexample:
  "risk_to_color_hex ''urgent'' ''banana'' = ''banana'' \<and> \<not> hex_fullmatch ''banana''"
  by (simp add: risk_to_color_hex_key dict_get_RISK_TO_HEX hex_fullmatch_def
      lower_def lower_char_def strip_def is_space_def)

section \<open>The column classifier\<close>

lemma find_level_col_level:
  "find_level_col cols = Some c \<Longrightarrow> contains (lower c) ''level''"
  unfolding find_level_col_def
  by (induction cols) (auto simp: Let_def split: if_splits)

lemma tanggal_no_urut_not_level:
  "find_level_col cols \<noteq> Some ''Tanggal No Urut''"
proof
  assume "find_level_col cols = Some ''Tanggal No Urut''"
  then have "contains (lower ''Tanggal No Urut'') ''level''"
    by (rule find_level_col_level)
  then show False
    by (simp add: contains_def lower_def lower_char_ascii sublist_code)
qed

lemma tanggal_no_urut_date: "is_date_column ''Tanggal No Urut''"
  by (simp add: is_date_column_def contains_def lower_def lower_char_ascii sublist_code)

lemma tanggal_no_urut_number: "is_number_column ''Tanggal No Urut''"
  by (simp add: is_number_column_def contains_def lower_def lower_char_ascii sublist_code)

lemma tanggal_no_urut_role:
  "level_col \<noteq> Some ''Tanggal No Urut'' \<Longrightarrow> column_role level_col ''Tanggal No Urut'' = DateInput"
  using tanggal_no_urut_date
  by (auto simp add: column_role_def is_skipped_def SKIP_KEYS_def is_indicator_column_def
      contains_def lower_def lower_char_ascii sublist_code)

text \<open>
  Claim C3. The role of a column is a function of its name (and of the level column found
  once for the dataset): every name gets one role, and that role is the first one, in the
  order skip-list, documentation, feeder, indicator, date, number, plain text, whose test
  the name passes. The name \<open>Tanggal No Urut\<close> passes the date test and the number test;
  whatever the columns of the dataset are, it is a date column.
\<close>

theorem column_role_priority:
  "find (role_matches level_col c) role_priority = Some (column_role level_col c)
   \<and> classify_spec level_col c = Some (column_role level_col c)
   \<and> is_date_column ''Tanggal No Urut''
   \<and> is_number_column ''Tanggal No Urut''
   \<and> column_role (find_level_col cols) ''Tanggal No Urut'' = DateInput"
proof -
  have "find (role_matches level_col c) role_priority = Some (column_role level_col c)"
    by (simp add: role_priority_def role_matches_def column_role_def)
  moreover have "column_role (find_level_col cols) ''Tanggal No Urut'' = DateInput"
    by (rule tanggal_no_urut_role) (rule tanggal_no_urut_not_level)
  ultimately show ?thesis
    by (simp only: classify_spec_def tanggal_no_urut_date tanggal_no_urut_number simp_thms)
qed

theorem column_role_priority_witness:
  "classify_spec None ''Nomer Surat PFK'' = Some PlainText
   \<and> classify_spec (Some ''Level Resiko'') ''Dokumentasi Tanggal'' = Some Documentation"
proof -
  have "column_role None ''Nomer Surat PFK'' = PlainText"
    by (simp add: column_role_def is_skipped_def SKIP_KEYS_def is_indicator_column_def
        is_date_column_def is_number_column_def contains_def lower_def lower_char_ascii sublist_code)
  moreover have "column_role (Some ''Level Resiko'') ''Dokumentasi Tanggal'' = Documentation"
    by (simp add: column_role_def is_skipped_def SKIP_KEYS_def
        contains_def lower_def lower_char_ascii sublist_code)
  ultimately show ?thesis
    using column_role_priority [of None "''Nomer Surat PFK''" "[]"]
      column_role_priority [of "Some ''Level Resiko''" "''Dokumentasi Tanggal''" "[]"]
    by simp
qed

section \<open>The fingerprint of an empty dataset\<close>

text \<open>
  Claim C10. The fingerprint of a dataset without rows is the string \<open>empty\<close>, whatever
  its columns are. Two datasets without rows have the same fingerprint, so after one of
  them the comparison of fingerprints in \<open>main\<close> reports no change for the other, and the
  test that guards the rebuilding of the map is true only because no map is cached.
\<close>

theorem get_data_hash_empty:
  "rows d1 = [] \<Longrightarrow> rows d2 = [] \<Longrightarrow>
     get_data_hash R d1 = ''empty''
     \<and> get_data_hash R d2 = get_data_hash R d1
     \<and> \<not> data_changed R d2 (get_data_hash R d1)
     \<and> map_rebuild R d2 (get_data_hash R d1) cached_map = (cached_map = None)"
  by (simp add: get_data_hash_def df_empty_def data_changed_def map_rebuild_def)

theorem get_data_hash_empty_witness:
  "\<forall>R :: string pyrepr.
     get_data_hash R \<lparr>columns = [''Alamat''], rows = []\<rparr> = ''empty''
     \<and> get_data_hash R \<lparr>columns = [''Nama'', ''Koordinat''], rows = []\<rparr>
         = get_data_hash R \<lparr>columns = [''Alamat''], rows = []\<rparr>
     \<and> \<not> data_changed R \<lparr>columns = [''Nama'', ''Koordinat''], rows = []\<rparr>
           (get_data_hash R \<lparr>columns = [''Alamat''], rows = []\<rparr>)"
proof
  fix R :: "string pyrepr"
  have a: "rows \<lparr>columns = [''Alamat''], rows = [] :: string cell list list\<rparr> = []"
    by simp
  have b: "rows \<lparr>columns = [''Nama'', ''Koordinat''], rows = [] :: string cell list list\<rparr> = []"
    by simp
  from get_data_hash_empty [OF a b, of R None]
  show "get_data_hash R \<lparr>columns = [''Alamat''], rows = []\<rparr> = ''empty''
     \<and> get_data_hash R \<lparr>columns = [''Nama'', ''Koordinat''], rows = []\<rparr>
         = get_data_hash R \<lparr>columns = [''Alamat''], rows = []\<rparr>
     \<and> \<not> data_changed R \<lparr>columns = [''Nama'', ''Koordinat''], rows = []\<rparr>
           (get_data_hash R \<lparr>columns = [''Alamat''], rows = []\<rparr>)"
    by blast
qed

section \<open>The marker loop\<close>






section \<open>The empty dataset\<close>




section \<open>The fill colour of a marker\<close>







section \<open>The coordinates of a row\<close>












section \<open>The last number of a column\<close>

lemma dropWhile_hd_fix: "xs = [] \<or> \<not> P (hd xs) \<Longrightarrow> dropWhile P xs = xs"
  by (cases xs) auto

lemma rstrip_prefix:
  "rev (dropWhile P (rev ys)) = [] \<or> hd (rev (dropWhile P (rev ys))) = hd ys"
proof (cases "rev (dropWhile P (rev ys)) = []")
  case True
  then show ?thesis by simp
next
  case False
  have "ys = rev (dropWhile P (rev ys)) @ rev (takeWhile P (rev ys))"
    by (metis rev_append rev_rev_ident takeWhile_dropWhile_id)
  with False show ?thesis
    by (metis hd_append2)
qed

lemma strip_strip: "strip (strip s) = strip s"
proof -
  let ?t = "dropWhile is_space s"
  let ?u = "rev (dropWhile is_space (rev ?t))"
  have t: "?t = [] \<or> \<not> is_space (hd ?t)"
    by (metis hd_dropWhile)
  have "?u = [] \<or> \<not> is_space (hd ?u)"
  proof (cases "?u = []")
    case True
    then show ?thesis by (rule disjI1)
  next
    case False
    have "?t = [] \<Longrightarrow> ?u = []"
      by (simp only: rev.simps dropWhile.simps)
    with False have "?t \<noteq> []"
      by blast
    with t have "\<not> is_space (hd ?t)"
      by blast
    moreover from False rstrip_prefix [of is_space ?t] have "hd ?u = hd ?t"
      by blast
    ultimately show ?thesis
      by simp
  qed
  then have 1: "dropWhile is_space ?u = ?u"
    by (rule dropWhile_hd_fix)
  have "dropWhile is_space (rev ?u) = rev ?u"
    by simp
  with 1 show ?thesis
    by (simp add: strip_def)
qed

lemma last_number_loop_find:
  "\<forall>x\<in>set xs. strip x = x \<Longrightarrow>
     last_number_loop xs = map_option report_value (find qualifies xs)"
proof (induction xs)
  case Nil
  then show ?case by simp
next
  case (Cons x xs)
  have "qualifies x \<longleftrightarrow> \<not> (x = [] \<or> lower x \<in> set bads \<or> x = ''0'')"
    by (auto simp: qualifies_def bads_def lower_def)
  with Cons show ?case
    by (simp add: report_value_def Let_def)
qed

lemma find_SomeD: "find P xs = Some x \<Longrightarrow> P x \<and> x \<in> set xs"
  by (induction xs) (auto split: if_splits)

lemma find_filter_weaker:
  "(\<And>x. P x \<Longrightarrow> Q x) \<Longrightarrow> find P (filter Q xs) = find P xs"
  by (induction xs) auto

lemma not_qualifying_is_zero:
  assumes "find qualifies ys = None" and "\<forall>y\<in>set ys. lower y \<notin> set bads" and "ys \<noteq> []"
  shows "last ys = ''0''"
proof -
  from assms(1) have "\<forall>y\<in>set ys. \<not> qualifies y"
    by (simp add: find_None_iff)
  with assms(2) have "\<forall>y\<in>set ys. y = ''0''"
    by (auto simp: qualifies_def)
  with assms(3) show ?thesis
    by (metis last_in_set)
qed

lemma column_strings_stripped: "\<forall>x\<in>set (column_strings F d c). strip x = x"
  by (auto simp: column_strings_def strip_strip)

lemma get_last_number_scan:
  assumes "\<not> df_empty d" and "c \<in> set (columns d)"
  shows "get_last_number_from_column F (Some d) c =
     (case find qualifies (rev (column_strings F d c)) of
        Some v \<Rightarrow> report_value v
      | None \<Rightarrow>
          if list_all (\<lambda>v. lower v \<in> set bads) (column_strings F d c) then NO_DATA else ''0'')"
proof -
  let ?s = "column_strings F d c"
  let ?f = "filter (\<lambda>x. lower x \<notin> set bads) ?s"
  have st: "\<forall>x\<in>set (rev ?f). strip x = x"
    using column_strings_stripped [of F d c] by simp
  have fnd: "find qualifies (rev ?f) = find qualifies (rev ?s)"
    by (simp only: rev_filter) (rule find_filter_weaker, simp add: qualifies_def)
  have loop: "last_number_loop (rev ?f) = map_option report_value (find qualifies (rev ?s))"
    using last_number_loop_find [OF st] fnd by simp
  have emp: "?f = [] \<longleftrightarrow> list_all (\<lambda>v. lower v \<in> set bads) ?s"
    by (simp add: filter_empty_conv list_all_iff)
  show ?thesis
  proof (cases "find qualifies (rev ?s)")
    case (Some v)
    then have "v \<in> set ?s" "qualifies v"
      by (auto dest: find_SomeD)
    then have "?f \<noteq> []"
      by (auto simp: filter_empty_conv qualifies_def)
    with Some loop assms show ?thesis
      by (simp add: get_last_number_from_column_def Let_def)
  next
    case None
    show ?thesis
    proof (cases "?f = []")
      case True
      with None emp assms show ?thesis
        by (simp add: get_last_number_from_column_def Let_def)
    next
      case False
      from None fnd have "find qualifies ?f = None"
        by (simp add: find_None_iff)
      then have "last ?f = ''0''"
        using False by (intro not_qualifying_is_zero) simp_all
      with None False emp loop assms show ?thesis
        by (simp add: get_last_number_from_column_def Let_def)
    qed
  qed
qed

text \<open>
  Claim C7, as the code has it. The hint is the sentinel \<open>Belum ada data\<close> when there is no
  dataset, the dataset is empty or has no such column, or every value of the column is
  blank, \<open>nan\<close> or \<open>none\<close>. Otherwise the trimmed values are scanned from the last row to
  the first, the values that are blank, \<open>nan\<close>, \<open>none\<close> or \<open>0\<close> are passed over, and the
  first value left is returned: followed by its last run of digits, as
  \<open>value (angka: digits)\<close>, when it has a digit, and alone when it has none. When values
  other than blank, \<open>nan\<close> and \<open>none\<close> exist and all of them are \<open>0\<close>, the function
  returns \<open>0\<close>, not the sentinel.
\<close>

theorem get_last_number_hint:
  "get_last_number_from_column F None c = NO_DATA
   \<and> (df_empty d \<or> c \<notin> set (columns d) \<longrightarrow> get_last_number_from_column F (Some d) c = NO_DATA)
   \<and> (\<not> df_empty d \<and> c \<in> set (columns d) \<longrightarrow>
        get_last_number_from_column F (Some d) c =
          (case find qualifies (rev (column_strings F d c)) of
             Some v \<Rightarrow> report_value v
           | None \<Rightarrow>
               if list_all (\<lambda>v. lower v \<in> set bads) (column_strings F d c) then NO_DATA
               else ''0''))"
proof -
  have "get_last_number_from_column F None c = NO_DATA"
    by (simp add: get_last_number_from_column_def)
  moreover have "df_empty d \<or> c \<notin> set (columns d) \<longrightarrow>
      get_last_number_from_column F (Some d) c = NO_DATA"
    by (auto simp: get_last_number_from_column_def)
  ultimately show ?thesis
    using get_last_number_scan [of d c F] by blast
qed

theorem get_last_number_hint_witness:
  "get_last_number_from_column text_float
     (Some \<lparr>columns = [''No Urut''], rows = [[Str ''A-12''], [Str [CHR 0xA0]], [Str ''0'']]\<rparr>) ''No Urut''
   = ''A-12 (angka: 12)''"
proof -
  let ?d = "\<lparr>columns = [''No Urut''], rows = [[Str ''A-12''], [Str [CHR 0xA0]], [Str ''0'']]\<rparr>
    :: sym_float dataframe"
  have h: "\<not> df_empty ?d \<and> ''No Urut'' \<in> set (columns ?d)"
    by (simp add: df_empty_def)
  have cs: "column_strings text_float ?d ''No Urut'' = [''A-12'', [], ''0'']"
    by (simp add: column_strings_def row_get_def cell_str_def strip_def is_space_def)
  have f: "find qualifies (rev [''A-12'', [], ''0'']) = Some ''A-12''"
    by (simp add: qualifies_def bads_def lower_def lower_char_ascii)
  have r: "report_value ''A-12'' = ''A-12 (angka: 12)''"
    by (simp add: report_value_def is_digit_def)
  from get_last_number_hint [of text_float "''No Urut''" ?d] h
  have "get_last_number_from_column text_float (Some ?d) ''No Urut'' =
      (case find qualifies (rev (column_strings text_float ?d ''No Urut'')) of
         Some v \<Rightarrow> report_value v
       | None \<Rightarrow>
           if list_all (\<lambda>v. lower v \<in> set bads) (column_strings text_float ?d ''No Urut'')
           then NO_DATA else ''0'')"
    by blast
  then show ?thesis
    by (simp only: cs f r option.case)
qed

text \<open>
  Claim C7 as stated fails on a column whose values are all \<open>0\<close>: the loop passes over
  every value, and the fallback after the loop returns the last of them.
\<close>

theorem get_last_number_all_zero_counterexample:
  "get_last_number_from_column text_float
     (Some \<lparr>columns = [''No Urut''], rows = [[Str ''0''], [Str ''0'']]\<rparr>) ''No Urut'' = ''0''
   \<and> get_last_number_from_column text_float
     (Some \<lparr>columns = [''No Urut''], rows = [[Str ''0''], [Str ''0'']]\<rparr>) ''No Urut'' \<noteq> NO_DATA"
proof -
  let ?d = "\<lparr>columns = [''No Urut''], rows = [[Str ''0''], [Str ''0'']]\<rparr> :: sym_float dataframe"
  have cs: "column_strings text_float ?d ''No Urut'' = [''0'', ''0'']"
    by (simp add: column_strings_def row_get_def cell_str_def strip_def is_space_ascii)
  have "get_last_number_from_column text_float (Some ?d) ''No Urut'' = ''0''"
    by (simp add: get_last_number_from_column_def df_empty_def cs Let_def
        bads_def lower_def lower_char_ascii strip_def is_space_ascii)
  then show ?thesis
    by (simp add: NO_DATA_def)
qed

section \<open>The submission\<close>

lemma render_input_form_sheet:
  "sheet (render_input_form F drive df inp w) = sheet w"
  by (simp add: render_input_form_def submit_cycle_def Let_def
      split: prod.splits option.splits sum.splits)

text \<open>
  Claim C2. When the dataset has a level column, the submit button was pressed and no
  level is chosen, the run ends at the validation: the page gets the error that asks for
  the level (after the notice of the coordinate text, if it was malformed), and nothing
  else changes: the worksheet, the dataset and the map of the session are as before and
  no file was handed to the upload. The row is built only after the validation.
\<close>

theorem level_validation_abort:
  "find_level_col (columns df) = Some lc \<Longrightarrow> submitted inp \<Longrightarrow> level_state inp = [] \<Longrightarrow>
     sheet (render_input_form F drive df inp w) = sheet w
     \<and> session_df (render_input_form F drive df inp w) = session_df w
     \<and> session_map (render_input_form F drive df inp w) = session_map w
     \<and> drive_uploads (render_input_form F drive df inp w) = drive_uploads w
     \<and> page (render_input_form F drive df inp w) =
         page w @ snd (parse_coordinates F (coordinates inp))
           @ [Error (''Silakan pilih '' @ lc @ '' terlebih dahulu (di atas).'')]"
proof -
  assume lc: "find_level_col (columns df) = Some lc"
    and sub: "submitted inp" and lv: "level_state inp = []"
  from lc have ne: "columns df \<noteq> []"
    by (auto simp: find_level_col_def)
  from ne lc sub lv show ?thesis
    by (simp add: render_input_form_def Let_def split: prod.splits)
qed

theorem level_validation_abort_witness:
  "render_input_form text_float (\<lambda>c. Uploaded ''https://drive.google.com/uc?id=1'')
     \<lparr>columns = [''Level Resiko'', ''Alamat'', ''Dokumentasi''], rows = []\<rparr>
     \<lparr>level_state = [], coordinates = ''-7.93813533, 112.6332461'',
      entered = (\<lambda>c. ''Jl. Ijen 1''), uploaded = (\<lambda>c. Some ''foto.jpg''), submitted = True\<rparr>
     \<lparr>sheet = [], session_df = None, session_map = None, drive_uploads = [], page = []\<rparr>
   = \<lparr>sheet = [], session_df = None, session_map = None, drive_uploads = [],
      page = [Error ''Silakan pilih Level Resiko terlebih dahulu (di atas).'']\<rparr>"
proof -
  let ?df = "\<lparr>columns = [''Level Resiko'', ''Alamat'', ''Dokumentasi''], rows = []\<rparr> :: sym_float dataframe"
  let ?inp = "\<lparr>level_state = [], coordinates = ''-7.93813533, 112.6332461'',
      entered = (\<lambda>c. ''Jl. Ijen 1''), uploaded = (\<lambda>c. Some ''foto.jpg''), submitted = True\<rparr>"
  let ?w = "\<lparr>sheet = [], session_df = None, session_map = None, drive_uploads = [], page = []\<rparr>
    :: sym_float world"
  have h1: "find_level_col (columns ?df) = Some ''Level Resiko''"
    by (simp add: find_level_col_def contains_def sublist_code lower_def lower_char_ascii)
  have h2: "submitted ?inp" and h3: "level_state ?inp = []"
    by simp_all
  have pc: "snd (parse_coordinates text_float (coordinates ?inp)) = []"
    by (simp add: parse_coordinates_def text_float_def match_float_def is_digit_def
        strip_def is_space_ascii)
  from level_validation_abort [OF h1 h2 h3, of text_float
      "\<lambda>c. Uploaded ''https://drive.google.com/uc?id=1''" ?w] pc
  show ?thesis
    by (intro world.equality) simp_all
qed

text \<open>
  Claim C1 does not hold of the code. \<open>render_input_form\<close> imports \<open>append_row\<close> and never
  calls it: no run changes the worksheet (\<open>render_input_form_sheet\<close>). In the run below the
  submission passes the validation; afterwards the worksheet is still empty, the row is
  in the dataset of the session only, and the page reports that the row was added to
  Google Sheets.
\<close>

theorem submit_leaves_sheet_unchanged:
  "sheet (render_input_form text_float (\<lambda>c. UploadFailed)
     \<lparr>columns = [''Level Resiko'', ''Koordinat'', ''Alamat''], rows = []\<rparr>
     \<lparr>level_state = ''High'', coordinates = ''-7.93813533, 112.6332461'',
      entered = (\<lambda>c. ''Jl. Ijen 1''), uploaded = (\<lambda>c. None), submitted = True\<rparr>
     \<lparr>sheet = [], session_df = None, session_map = None, drive_uploads = [], page = []\<rparr>) = []
   \<and> session_df (render_input_form text_float (\<lambda>c. UploadFailed)
     \<lparr>columns = [''Level Resiko'', ''Koordinat'', ''Alamat''], rows = []\<rparr>
     \<lparr>level_state = ''High'', coordinates = ''-7.93813533, 112.6332461'',
      entered = (\<lambda>c. ''Jl. Ijen 1''), uploaded = (\<lambda>c. None), submitted = True\<rparr>
     \<lparr>sheet = [], session_df = None, session_map = None, drive_uploads = [], page = []\<rparr>)
     = Some \<lparr>columns = [''Level Resiko'', ''Koordinat'', ''Alamat''],
             rows = [[Str ''High'', Str ''-7.93813533, 112.6332461'', Str ''Jl. Ijen 1'']]\<rparr>
   \<and> page (render_input_form text_float (\<lambda>c. UploadFailed)
     \<lparr>columns = [''Level Resiko'', ''Koordinat'', ''Alamat''], rows = []\<rparr>
     \<lparr>level_state = ''High'', coordinates = ''-7.93813533, 112.6332461'',
      entered = (\<lambda>c. ''Jl. Ijen 1''), uploaded = (\<lambda>c. None), submitted = True\<rparr>
     \<lparr>sheet = [], session_df = None, session_map = None, drive_uploads = [], page = []\<rparr>)
     = [Success ''Baris berhasil ditambahkan ke Google Sheets (peta diperbarui secara lokal).'']"
  by code_simp

end
